theory Spec2Isabelle
  imports Main "HOL-Library.Sublist"
begin

section \<open>The output workflow (pkg/local\_workflows/output\_workflow.go)\<close>

text \<open>
  The payload of a \<^verbatim>\<open>workflow.Data\<close> item is an \<^verbatim>\<open>interface{}\<close>. The entry point
  only ever asks whether its dynamic type is \<^verbatim>\<open>[]byte\<close> or \<^verbatim>\<open>string\<close>, so the
  payload is a tagged value with a third case for every other dynamic type
  (\<^verbatim>\<open>nil\<close> included).
\<close>

datatype payload = Bytes string | Str string | Other

text \<open>
  What the entry point reads of one input item: \<^verbatim>\<open>GetIdentifier().String()\<close>,
  \<^verbatim>\<open>GetContentType()\<close>, \<^verbatim>\<open>GetContentLocation()\<close> and \<^verbatim>\<open>GetPayload()\<close>. The getters
  are read as pure: calling one twice on the same item gives the same value.
\<close>

record data =
  getIdentifier :: string
  getContentType :: string
  getContentLocation :: string
  getPayload :: payload

text \<open>
  The two configuration values read before the loop:
  \<^verbatim>\<open>config.GetBool(OUTPUT_CONFIG_KEY_JSON)\<close> and
  \<^verbatim>\<open>config.GetString(OUTPUT_CONFIG_KEY_JSON_FILE)\<close>.
\<close>

record configuration =
  printJsonToCmd :: bool
  writeJsonToFile :: string

definition OUTPUT_CONFIG_KEY_JSON :: string where
  "OUTPUT_CONFIG_KEY_JSON = ''json''"

text \<open>
  The calls the entry point makes on its collaborators, in the order it makes them: the
  two \<^verbatim>\<open>debugLogger.Printf\<close> messages (with their arguments) and the three methods of
  the output destination. \<^verbatim>\<open>WriteFile\<close> is always called with the permission constant
  \<^verbatim>\<open>iUtils.FILEPERM_666\<close>, which is why the event does not carry it. The results of
  \<^verbatim>\<open>Remove\<close> and \<^verbatim>\<open>WriteFile\<close> are discarded by the code.
\<close>

datatype effect =
    LogProcessing string string string
  | LogWriting string nat string
  | Println string
  | Remove string
  | WriteFile string string

text \<open>
  How a call of the entry point ends: it returns its two results, or a type assertion
  without the comma-ok form fails and the goroutine panics.
\<close>

datatype outcome = Returned "data list" "string option" | Panic

text \<open>\<^verbatim>\<open>strings.Contains(s, substr)\<close>.\<close>

definition Contains :: "string \<Rightarrow> string \<Rightarrow> bool" where
  "Contains s substr = sublist substr s"

text \<open>
  The body of the \<^verbatim>\<open>for i := range input\<close> loop. The first argument is the current
  value of the local \<^verbatim>\<open>printJsonToCmd\<close>, which an iteration may set and which stays
  set for the following ones; the last argument collects the effects so far. The
  named result \<^verbatim>\<open>output\<close> is the empty slice assigned on entry and never appended to.
\<close>

fun outputLoop :: "bool \<Rightarrow> string \<Rightarrow> data list \<Rightarrow> effect list \<Rightarrow> effect list \<times> outcome" where
  "outputLoop p w [] es = (es, Returned [] None)"
| "outputLoop p w (d # ds) es =
     (let mimeType = getContentType d;
          loc = (if length (getContentLocation d) = 0 then ''unknown'' else getContentLocation d);
          es1 = es @ [LogProcessing (getIdentifier d) loc mimeType]
      in if Contains mimeType OUTPUT_CONFIG_KEY_JSON then
           (case getPayload d of
              Bytes singleData \<Rightarrow>
                (let p' = (if p = False \<and> length w = 0 then True else p);
                     es2 = (if p' then es1 @ [Println singleData] else es1);
                     es3 = (if length w > 0
                            then es2 @ [LogWriting (getIdentifier d) (length singleData) w,
                                        Remove w, WriteFile w singleData]
                            else es2)
                 in outputLoop p' w ds es3)
            | _ \<Rightarrow> (es1, Panic))
         else
           (case getPayload d of
              Bytes singleData \<Rightarrow> outputLoop p w ds (es1 @ [Println singleData])
            | Str singleDataAsString \<Rightarrow> outputLoop p w ds (es1 @ [Println singleDataAsString])
            | Other \<Rightarrow> (es1, Returned [] (Some (''Unsupported output type: '' @ mimeType)))))"

definition outputWorkflowEntryPoint :: "configuration \<Rightarrow> data list \<Rightarrow> effect list \<times> outcome" where
  "outputWorkflowEntryPoint config input =
     outputLoop (printJsonToCmd config) (writeJsonToFile config) input []"

text \<open>
  An item the loop gets past: one of JSON content type whose payload is a byte slice, or
  one of any other content type whose payload is a byte slice or a string.
\<close>

definition processed :: "data \<Rightarrow> bool" where
  "processed d =
     (case getPayload d of
        Bytes _ \<Rightarrow> True
      | Str _ \<Rightarrow> \<not> Contains (getContentType d) OUTPUT_CONFIG_KEY_JSON
      | Other \<Rightarrow> False)"

text \<open>An item the text branch rejects.\<close>

definition unsupported :: "data \<Rightarrow> bool" where
  "unsupported d =
     (\<not> Contains (getContentType d) OUTPUT_CONFIG_KEY_JSON \<and> getPayload d = Other)"

section \<open>The literal redactor (spec, 4.2)\<close>

text \<open>
  \<^verbatim>\<open>SanitizeUsername\<close> is called by \<^verbatim>\<open>Test_SanitizeUsername\<close>, but the source of the
  function itself is not part of the sources this development is written from. The
  definitions of this section follow the specification's description of the Literal
  Redactor (\<^verbatim>\<open>RedactIdentity\<close>) instead, sentence by sentence.
\<close>


text \<open>
  Modelled from the spec: the error kinds of its section 7, missing with
  \<^verbatim>\<open>SanitizeUsername\<close>.
\<close>

datatype error = DecodeError | EncodeError











section \<open>Concrete inputs\<close>

text \<open>Items and a configuration for the closed theorems on the output workflow.\<close>

definition jsonItem :: data where
  "jsonItem = \<lparr>getIdentifier = ''scan'', getContentType = ''application/json'',
                getContentLocation = [], getPayload = Bytes ''{}''\<rparr>"

definition jsonStringItem :: data where
  "jsonStringItem = \<lparr>getIdentifier = ''scan'', getContentType = ''application/json'',
                      getContentLocation = [], getPayload = Str ''{}''\<rparr>"

definition textItem :: data where
  "textItem = \<lparr>getIdentifier = ''summary'', getContentType = ''text/plain'',
                getContentLocation = [], getPayload = Str ''hello''\<rparr>"

definition badItem :: data where
  "badItem = \<lparr>getIdentifier = ''blob'', getContentType = ''text/plain'',
               getContentLocation = ''memory'', getPayload = Other\<rparr>"

definition htmlItem :: data where
  "htmlItem = \<lparr>getIdentifier = ''page'', getContentType = ''text/html'',
                getContentLocation = [], getPayload = Other\<rparr>"

definition toFile :: configuration where
  "toFile = \<lparr>printJsonToCmd = False, writeJsonToFile = ''out.json''\<rparr>"





section \<open>Properties of the output workflow\<close>

subsection \<open>The loop\<close>

lemma outputLoop_output_empty:
  "snd (outputLoop p w ds es) = Returned out err \<Longrightarrow> out = []"
proof (induction ds arbitrary: p es)
  case Nil
  then show ?case by simp
next
  case (Cons d ds)
  then show ?case
    by (auto simp: Let_def split: if_splits payload.splits)
qed

text \<open>
  Items the loop gets past only add effects and may set \<^verbatim>\<open>printJsonToCmd\<close>; the
  rest of the input is then processed from the effects they left.
\<close>

lemma outputLoop_processed:
  "list_all processed ds1 \<Longrightarrow>
     \<exists>p'. outputLoop p w (ds1 @ rest) es = outputLoop p' w rest (fst (outputLoop p w ds1 es))"
proof (induction ds1 arbitrary: p es)
  case Nil
  then show ?case by auto
next
  case (Cons d ds)
  then show ?case
    by (cases "getPayload d") (auto simp: Let_def processed_def)
qed

lemma outputLoop_unsupported:
  "unsupported d \<Longrightarrow>
     outputLoop p w (d # ds) es =
       (es @ [LogProcessing (getIdentifier d)
                (if length (getContentLocation d) = 0 then ''unknown'' else getContentLocation d)
                (getContentType d)],
        Returned [] (Some (''Unsupported output type: '' @ getContentType d)))"
  by (simp add: unsupported_def Let_def)

lemma Contains_json_application: "Contains ''application/json'' OUTPUT_CONFIG_KEY_JSON"
  by (simp add: Contains_def OUTPUT_CONFIG_KEY_JSON_def sublist_Cons_right)

lemma Contains_json_plain: "\<not> Contains ''text/plain'' OUTPUT_CONFIG_KEY_JSON"
  by (simp add: Contains_def OUTPUT_CONFIG_KEY_JSON_def sublist_Cons_right)

lemma Contains_json_html: "\<not> Contains ''text/html'' OUTPUT_CONFIG_KEY_JSON"
  by (simp add: Contains_def OUTPUT_CONFIG_KEY_JSON_def sublist_Cons_right)

text \<open>
  Claim C10, as stated, fails in two ways. An item of JSON content type whose payload is
  not a byte slice makes the unchecked assertion \<^verbatim>\<open>GetPayload().([]byte)\<close> panic, so an
  unsupported item after it is never reached and nothing is returned. And of two
  unsupported items only the first is reported: the error names its content type, not
  the second one's.
\<close>

theorem outputWorkflowEntryPoint_unsupported_counterexample:
  "unsupported badItem
   \<and> outputWorkflowEntryPoint toFile [jsonStringItem, badItem] =
       ([LogProcessing ''scan'' ''unknown'' ''application/json''], Panic)
   \<and> unsupported htmlItem
   \<and> snd (outputWorkflowEntryPoint toFile [badItem, htmlItem]) =
       Returned [] (Some ''Unsupported output type: text/plain'')
   \<and> snd (outputWorkflowEntryPoint toFile [badItem, htmlItem]) \<noteq>
       Returned [] (Some (''Unsupported output type: '' @ getContentType htmlItem))"
  by (simp add: outputWorkflowEntryPoint_def unsupported_def toFile_def jsonStringItem_def
      badItem_def htmlItem_def Contains_json_application Contains_json_plain
      Contains_json_html Let_def)

text \<open>
  Claim C10, amended. When every item before \<open>d\<close> is one the loop gets past, and \<open>d\<close> has
  a content type without \<^verbatim>\<open>json\<close> and a payload that is neither a byte slice nor a
  string, the entry point returns the error \<^verbatim>\<open>Unsupported output type: <mimeType of d>\<close>
  with the empty output list, and the items after \<open>d\<close> are not processed: the effects are
  those of the items before \<open>d\<close> followed by the one debug message for \<open>d\<close>. And on every
  input, whenever the entry point returns, the output list is empty.
\<close>

theorem outputWorkflowEntryPoint_unsupported:
  assumes "list_all processed ds1" and "unsupported d"
  shows "outputWorkflowEntryPoint config (ds1 @ d # ds2) =
           (fst (outputWorkflowEntryPoint config ds1) @
              [LogProcessing (getIdentifier d)
                 (if length (getContentLocation d) = 0 then ''unknown'' else getContentLocation d)
                 (getContentType d)],
            Returned [] (Some (''Unsupported output type: '' @ getContentType d)))
         \<and> (case snd (outputWorkflowEntryPoint config input) of
               Returned out err \<Rightarrow> out = [] | Panic \<Rightarrow> True)"
proof -
  obtain p' where
    "outputLoop (printJsonToCmd config) (writeJsonToFile config) (ds1 @ d # ds2) [] =
       outputLoop p' (writeJsonToFile config) (d # ds2)
         (fst (outputLoop (printJsonToCmd config) (writeJsonToFile config) ds1 []))"
    using outputLoop_processed [OF assms(1)] by blast
  then have first: "outputWorkflowEntryPoint config (ds1 @ d # ds2) =
           (fst (outputWorkflowEntryPoint config ds1) @
              [LogProcessing (getIdentifier d)
                 (if length (getContentLocation d) = 0 then ''unknown'' else getContentLocation d)
                 (getContentType d)],
            Returned [] (Some (''Unsupported output type: '' @ getContentType d)))"
    unfolding outputWorkflowEntryPoint_def
    by (simp only: outputLoop_unsupported [OF assms(2)])
  have second: "(case snd (outputWorkflowEntryPoint config input) of
               Returned out err \<Rightarrow> out = [] | Panic \<Rightarrow> True)"
    unfolding outputWorkflowEntryPoint_def
    by (auto split: outcome.splits dest: outputLoop_output_empty)
  from first second show ?thesis by simp
qed

theorem outputWorkflowEntryPoint_unsupported_witness:
  "list_all processed [jsonItem, textItem] \<and> unsupported badItem
   \<and> outputWorkflowEntryPoint toFile ([jsonItem, textItem] @ badItem # [textItem, jsonItem]) =
       ([LogProcessing ''scan'' ''unknown'' ''application/json'',
         LogWriting ''scan'' 2 ''out.json'', Remove ''out.json'', WriteFile ''out.json'' ''{}'',
         LogProcessing ''summary'' ''unknown'' ''text/plain'', Println ''hello'',
         LogProcessing ''blob'' ''memory'' ''text/plain''],
        Returned [] (Some ''Unsupported output type: text/plain''))"
proof -
  have h1: "list_all processed [jsonItem, textItem]"
    by (simp add: processed_def jsonItem_def textItem_def Contains_json_plain)
  have h2: "unsupported badItem"
    by (simp add: unsupported_def badItem_def Contains_json_plain)
  have h3: "fst (outputWorkflowEntryPoint toFile [jsonItem, textItem]) =
       [LogProcessing ''scan'' ''unknown'' ''application/json'',
        LogWriting ''scan'' 2 ''out.json'', Remove ''out.json'', WriteFile ''out.json'' ''{}'',
        LogProcessing ''summary'' ''unknown'' ''text/plain'', Println ''hello'']"
    by (simp add: outputWorkflowEntryPoint_def toFile_def jsonItem_def textItem_def
        Contains_json_application Contains_json_plain Let_def)
  show ?thesis
    using h1 h2 h3
      outputWorkflowEntryPoint_unsupported [OF h1 h2, of toFile "[textItem, jsonItem]" "[]"]
    by (simp add: badItem_def)
qed

section \<open>Properties of the literal redactor\<close>

subsection \<open>One scan\<close>





subsection \<open>Counting tokens\<close>










subsection \<open>All scans\<close>










end
